theory Spec2Isabelle
  imports Complex_Main
begin

section \<open>Python values, strings and exceptions\<close>

text \<open>
  The adapter of \<^verbatim>\<open>nanobot/providers/openai_provider.py\<close> shapes one request,
  awaits one network call and parses one reply. The values it moves around are JSON-like
  Python values; a \<^verbatim>\<open>dict\<close> inside such a value is an association list in insertion
  order. A float (the sampling temperature) is only passed through, never computed with.
\<close>

datatype pyval =
    PNone
  | PBool bool
  | PInt int
  | PFloat real
  | PStr string
  | PList "pyval list"
  | PDict "(string \<times> pyval) list"

text \<open>
  An exception is an instance of Python's \<^verbatim>\<open>Exception\<close> class: its class name and the
  text \<^verbatim>\<open>str(e)\<close>. These are the failures a call can end with. Signals that are not
  instances of \<^verbatim>\<open>Exception\<close> (task cancellation, interpreter exit, a keyboard
  interrupt) are not failures of a call and are outside this model.
\<close>

datatype py_exception = PyException (exc_class: string) (exc_str: string)

definition IndexError :: py_exception where
  "IndexError = PyException ''IndexError'' ''list index out of range''"

definition RecursionError :: py_exception where
  "RecursionError =
     PyException ''RecursionError''
       ''maximum recursion depth exceeded while decoding a JSON array from a unicode string''"

text \<open>\<^verbatim>\<open>x or default\<close> for an optional string: \<^verbatim>\<open>None\<close> and \<^verbatim>\<open>""\<close> are falsy.\<close>

fun str_or :: "string option \<Rightarrow> string \<Rightarrow> string" where
  "str_or None d = d"
| "str_or (Some []) d = d"
| "str_or (Some (c # cs)) d = c # cs"

text \<open>\<^verbatim>\<open>s.startswith(p)\<close> and \<^verbatim>\<open>sub in s\<close>.\<close>

fun startswith :: "string \<Rightarrow> string \<Rightarrow> bool" where
  "startswith s [] = True"
| "startswith [] (p # ps) = False"
| "startswith (c # cs) (p # ps) = (c = p \<and> startswith cs ps)"

fun contains_str :: "string \<Rightarrow> string \<Rightarrow> bool" where
  "contains_str sub [] = (sub = [])"
| "contains_str sub (c # cs) = (startswith (c # cs) sub \<or> contains_str sub cs)"

text \<open>
  \<^verbatim>\<open>s.lower()\<close>. A model identifier is a byte string here; the letters A to Z are
  mapped to a to z and every other byte is kept.
\<close>

definition lower_char :: "char \<Rightarrow> char" where
  "lower_char c =
     (case map_of (zip ''ABCDEFGHIJKLMNOPQRSTUVWXYZ'' ''abcdefghijklmnopqrstuvwxyz'') c of
        Some d \<Rightarrow> d
      | None \<Rightarrow> c)"

definition lower :: "string \<Rightarrow> string" where
  "lower s = map lower_char s"

section \<open>The normalized response\<close>

text \<open>
  Modelled from the spec: \<^verbatim>\<open>nanobot/providers/base.py\<close>, which declares
  \<^verbatim>\<open>ToolCallRequest\<close> and \<^verbatim>\<open>LLMResponse\<close>, is not among the sources. The fields
  are those of the spec's data model (section 3) and of the constructor calls in the
  adapter; \<^verbatim>\<open>tool_calls\<close> and \<^verbatim>\<open>usage\<close> are empty when the constructor call leaves
  them out. The field \<^verbatim>\<open>id\<close> is named \<open>id_tc\<close>.
\<close>

record ToolCallRequest =
  id_tc :: string
  name :: string
  arguments :: pyval

record LLMResponse =
  content :: string
  tool_calls :: "ToolCallRequest list"
  finish_reason :: string
  usage :: "(string \<times> int) list"

section \<open>The vendor's reply\<close>

text \<open>
  The reply object of the OpenAI SDK, with the attributes \<^verbatim>\<open>_parse_response\<close> reads.
  An attribute the source guards with \<^verbatim>\<open>hasattr\<close> may be absent; one it guards with
  \<^verbatim>\<open>or\<close> or with a truth test may be \<^verbatim>\<open>None\<close>. The arguments of a tool call are a
  Python value, since the source tests \<^verbatim>\<open>isinstance(args, str)\<close>.
\<close>

datatype 'a attr = Absent | Attr 'a

record vendor_function =
  fn_name :: string
  fn_arguments :: pyval

record vendor_tool_call =
  tc_id :: string
  tc_function :: vendor_function

record vendor_message =
  msg_content :: "string option"
  msg_reasoning_content :: "string option attr"
  msg_tool_calls :: "vendor_tool_call list option attr"

record vendor_choice =
  ch_message :: vendor_message
  ch_finish_reason :: "string option"

record vendor_usage =
  prompt_tokens :: int
  completion_tokens :: int
  total_tokens :: int

record vendor_response =
  resp_choices :: "vendor_choice list"
  resp_usage :: "vendor_usage option attr"

section \<open>Construction: \<^verbatim>\<open>OpenAIProvider.__init__\<close>\<close>

text \<open>
  The process environment is a map from variable names to values;
  \<^verbatim>\<open>os.getenv(name, default)\<close> reads it.
\<close>

definition os_getenv :: "(string \<rightharpoonup> string) \<Rightarrow> string \<Rightarrow> string \<Rightarrow> string" where
  "os_getenv env var dflt = (case env var of Some v \<Rightarrow> v | None \<Rightarrow> dflt)"

text \<open>
  Lines 30 to 33: the local \<^verbatim>\<open>key\<close> after the \<^verbatim>\<open>$NAME\<close> indirection.
  \<^verbatim>\<open>key and key.startswith("$")\<close> is false for \<^verbatim>\<open>None\<close> and for the empty string.
\<close>

definition resolve_key :: "(string \<rightharpoonup> string) \<Rightarrow> string option \<Rightarrow> string option" where
  "resolve_key env api_key =
     (case api_key of
        None \<Rightarrow> None
      | Some key \<Rightarrow>
          if key \<noteq> [] \<and> startswith key ''$''
          then Some (os_getenv env (drop 1 key) key)
          else Some key)"

text \<open>
  The adapter after construction: its default model and the two arguments its network
  client was built with (lines 28 and 35 to 38).
\<close>

record OpenAIProvider =
  default_model :: string
  client_base_url :: string
  client_api_key :: string

definition init :: "(string \<rightharpoonup> string) \<Rightarrow> string option \<Rightarrow> string option \<Rightarrow> string \<Rightarrow> OpenAIProvider" where
  "init env api_key api_base default_model' =
     \<lparr> default_model = default_model',
       client_base_url = str_or api_base ''https://integrate.api.nvidia.com/v1'',
       client_api_key = str_or (resolve_key env api_key) ''dummy-key'' \<rparr>"

section \<open>Parsing the reply: \<^verbatim>\<open>_parse_response\<close>\<close>

text \<open>
  \<^verbatim>\<open>json.loads\<close> belongs to the standard library and is a parameter of the model.
  On a string it returns the decoded value, or raises \<^verbatim>\<open>json.JSONDecodeError\<close>, or
  raises another exception: the decoder of CPython raises \<^verbatim>\<open>RecursionError\<close> on a
  document nested deeper than the recursion limit and \<^verbatim>\<open>ValueError\<close> on an integer
  literal longer than the digit limit, and neither is a \<^verbatim>\<open>JSONDecodeError\<close>.
\<close>

datatype json_result = Decoded pyval | JSONDecodeError | Raises py_exception

type_synonym json_decoder = "string \<Rightarrow> json_result"

text \<open>
  Lines 118 to 124: only a string payload is decoded; \<^verbatim>\<open>except json.JSONDecodeError\<close>
  wraps the string, and any other exception of the decoder leaves the function.
\<close>

fun decode_arguments :: "json_decoder \<Rightarrow> pyval \<Rightarrow> py_exception + pyval" where
  "decode_arguments json_loads (PStr s) =
     (case json_loads s of
        Decoded v \<Rightarrow> Inr v
      | JSONDecodeError \<Rightarrow> Inr (PDict [(''raw'', PStr s)])
      | Raises e \<Rightarrow> Inl e)"
| "decode_arguments json_loads args = Inr args"

text \<open>Lines 118 to 130, the body of the loop over \<^verbatim>\<open>message.tool_calls\<close>.\<close>

definition to_tool_call_request ::
  "json_decoder \<Rightarrow> vendor_tool_call \<Rightarrow> py_exception + ToolCallRequest" where
  "to_tool_call_request json_loads tc =
     (case decode_arguments json_loads (fn_arguments (tc_function tc)) of
        Inl e \<Rightarrow> Inl e
      | Inr args \<Rightarrow>
          Inr \<lparr> id_tc = tc_id tc, name = fn_name (tc_function tc), arguments = args \<rparr>)"

text \<open>
  Lines 117 to 130: one request per vendor tool call, in order; the first exception
  ends the loop.
\<close>

fun convert_tool_calls ::
  "json_decoder \<Rightarrow> vendor_tool_call list \<Rightarrow> py_exception + ToolCallRequest list" where
  "convert_tool_calls json_loads [] = Inr []"
| "convert_tool_calls json_loads (tc # tcs) =
     (case to_tool_call_request json_loads tc of
        Inl e \<Rightarrow> Inl e
      | Inr r \<Rightarrow>
          (case convert_tool_calls json_loads tcs of
             Inl e \<Rightarrow> Inl e
           | Inr rs \<Rightarrow> Inr (r # rs)))"

text \<open>
  Lines 115 to 130. The loop runs when the attribute exists and is truthy, that is a
  list with an element.
\<close>

definition extract_tool_calls ::
  "json_decoder \<Rightarrow> vendor_message \<Rightarrow> py_exception + ToolCallRequest list" where
  "extract_tool_calls json_loads message =
     (case msg_tool_calls message of
        Absent \<Rightarrow> Inr []
      | Attr None \<Rightarrow> Inr []
      | Attr (Some tcs) \<Rightarrow>
          if tcs \<noteq> [] then convert_tool_calls json_loads tcs else Inr [])"

text \<open>Lines 132 to 139.\<close>

definition extract_usage :: "vendor_response \<Rightarrow> (string \<times> int) list" where
  "extract_usage response =
     (case resp_usage response of
        Absent \<Rightarrow> []
      | Attr None \<Rightarrow> []
      | Attr (Some u) \<Rightarrow>
          [(''prompt_tokens'', prompt_tokens u),
           (''completion_tokens'', completion_tokens u),
           (''total_tokens'', total_tokens u)])"

text \<open>Line 104: \<^verbatim>\<open>response.choices[0]\<close> raises \<^verbatim>\<open>IndexError\<close> on an empty list.\<close>

definition first_choice :: "vendor_response \<Rightarrow> py_exception + vendor_choice" where
  "first_choice response =
     (case resp_choices response of
        [] \<Rightarrow> Inl IndexError
      | choice # _ \<Rightarrow> Inr choice)"

text \<open>
  Lines 102 to 146. The attribute \<^verbatim>\<open>reasoning_content\<close> of the message is never read
  (its only mention, on line 112, is commented out).
\<close>

definition parse_response :: "json_decoder \<Rightarrow> vendor_response \<Rightarrow> py_exception + LLMResponse" where
  "parse_response json_loads response =
     (case first_choice response of
        Inl e \<Rightarrow> Inl e
      | Inr choice \<Rightarrow>
          (let message = ch_message choice in
           case extract_tool_calls json_loads message of
             Inl e \<Rightarrow> Inl e
           | Inr calls \<Rightarrow>
               Inr \<lparr> content = str_or (msg_content message) [],
                     tool_calls = calls,
                     finish_reason = str_or (ch_finish_reason choice) ''stop'',
                     usage = extract_usage response \<rparr>))"

section \<open>The request: \<^verbatim>\<open>chat\<close>\<close>

text \<open>
  The keyword arguments of the vendor call are a dictionary from parameter names to
  values; \<^verbatim>\<open>kwargs.update(extra_kwargs)\<close> is \<open>++\<close> on maps. The network call
  \<^verbatim>\<open>self.client.chat.completions.create(**kwargs)\<close> is a parameter: given the
  request, it returns a reply or raises.
\<close>

type_synonym kwargs = "string \<rightharpoonup> pyval"

type_synonym completions_create = "kwargs \<Rightarrow> py_exception + vendor_response"

text \<open>Lines 78 to 83, the value stored under \<^verbatim>\<open>extra_body\<close>.\<close>

definition thinking_extra_body :: pyval where
  "thinking_extra_body =
     PDict [(''chat_template_kwargs'',
             PDict [(''enable_thinking'', PBool True), (''clear_thinking'', PBool False)])]"

text \<open>Lines 65 to 91: the request as it is handed to the network call.\<close>

definition chat_kwargs ::
  "OpenAIProvider \<Rightarrow> pyval list \<Rightarrow> pyval list option \<Rightarrow> string option \<Rightarrow> int \<Rightarrow> real \<Rightarrow> bool
   \<Rightarrow> kwargs \<Rightarrow> kwargs" where
  "chat_kwargs self messages tools model max_tokens temperature enable_thinking extra_kwargs =
     (let model' = str_or model (default_model self);
          kwargs0 = [''model'' \<mapsto> PStr model',
                     ''messages'' \<mapsto> PList messages,
                     ''temperature'' \<mapsto> PFloat temperature,
                     ''max_tokens'' \<mapsto> PInt max_tokens,
                     ''stream'' \<mapsto> PBool False];
          kwargs1 = (if enable_thinking \<and> contains_str ''glm'' (lower model')
                     then kwargs0(''extra_body'' \<mapsto> thinking_extra_body)
                     else kwargs0);
          kwargs2 = (case tools of
                       None \<Rightarrow> kwargs1
                     | Some [] \<Rightarrow> kwargs1
                     | Some (t # ts) \<Rightarrow>
                         kwargs1(''tools'' \<mapsto> PList (t # ts), ''tool_choice'' \<mapsto> PStr ''auto''))
      in kwargs2 ++ extra_kwargs)"

text \<open>
  \<^verbatim>\<open>**extra_kwargs\<close> collects the keyword arguments that are not parameters of
  \<^verbatim>\<open>chat\<close>: Python binds a keyword that names a parameter to that parameter, so no
  such name is a key of \<^verbatim>\<open>extra_kwargs\<close>.
\<close>

definition chat_parameters :: "string list" where
  "chat_parameters =
     [''self'', ''messages'', ''tools'', ''model'', ''max_tokens'', ''temperature'',
      ''enable_thinking'']"

definition valid_extra_kwargs :: "kwargs \<Rightarrow> bool" where
  "valid_extra_kwargs extra_kwargs = list_all (\<lambda>k. extra_kwargs k = None) chat_parameters"

text \<open>Lines 97 to 100, the handler's value.\<close>

definition error_response :: "py_exception \<Rightarrow> LLMResponse" where
  "error_response e =
     \<lparr> content = ''Error calling LLM: '' @ exc_str e,
       tool_calls = [],
       finish_reason = ''error'',
       usage = [] \<rparr>"

text \<open>
  Lines 93 to 100: the body of the \<^verbatim>\<open>try\<close> is the network call followed by the
  parsing of its reply; \<^verbatim>\<open>except Exception\<close> turns a failure of either into a value.
\<close>

definition try_except :: "py_exception + 'a \<Rightarrow> (py_exception \<Rightarrow> py_exception + 'a) \<Rightarrow> py_exception + 'a" where
  "try_except body handler = (case body of Inl e \<Rightarrow> handler e | Inr x \<Rightarrow> Inr x)"

definition chat ::
  "completions_create \<Rightarrow> json_decoder \<Rightarrow> OpenAIProvider \<Rightarrow> pyval list \<Rightarrow> pyval list option
   \<Rightarrow> string option \<Rightarrow> int \<Rightarrow> real \<Rightarrow> bool \<Rightarrow> kwargs \<Rightarrow> py_exception + LLMResponse" where
  "chat create json_loads self messages tools model max_tokens temperature enable_thinking
        extra_kwargs =
     (let kwargs = chat_kwargs self messages tools model max_tokens temperature
                     enable_thinking extra_kwargs
      in try_except
           (case create kwargs of
              Inl e \<Rightarrow> Inl e
            | Inr response \<Rightarrow> parse_response json_loads response)
           (\<lambda>e. Inr (error_response e)))"

text \<open>Line 148.\<close>

definition get_default_model :: "OpenAIProvider \<Rightarrow> string" where
  "get_default_model self = default_model self"

section \<open>The spec's words, and sample inputs\<close>

text \<open>
  The spec's condition on the model identifier, in its own words: the identifier
  contains the substring \<^verbatim>\<open>glm\<close>, matched without regard to case.
\<close>

definition contains_glm_ignoring_case :: "string \<Rightarrow> bool" where
  "contains_glm_ignoring_case ident \<longleftrightarrow>
     (\<exists>pre post g l m.
        ident = pre @ [g, l, m] @ post
        \<and> (g = CHR ''g'' \<or> g = CHR ''G'')
        \<and> (l = CHR ''l'' \<or> l = CHR ''L'')
        \<and> (m = CHR ''m'' \<or> m = CHR ''M''))"

text \<open>
  A payload makes the decoder raise when it is a string on which the decoder raises an
  exception other than \<^verbatim>\<open>JSONDecodeError\<close>; the payloads of a message decode when no
  tool call of it has such a payload.
\<close>

definition payload_raises :: "json_decoder \<Rightarrow> vendor_tool_call \<Rightarrow> bool" where
  "payload_raises json_loads tc =
     (case fn_arguments (tc_function tc) of
        PStr s \<Rightarrow> (case json_loads s of Raises e \<Rightarrow> True | _ \<Rightarrow> False)
      | _ \<Rightarrow> False)"

definition payloads_decode :: "json_decoder \<Rightarrow> vendor_message \<Rightarrow> bool" where
  "payloads_decode json_loads message =
     (case msg_tool_calls message of
        Attr (Some tcs) \<Rightarrow> list_all (\<lambda>tc. \<not> payload_raises json_loads tc) tcs
      | _ \<Rightarrow> True)"

text \<open>
  A decoder for the concrete inputs below. It decodes the empty object and the empty
  array, raises \<^verbatim>\<open>RecursionError\<close> on a string that opens a thousand arrays or more,
  as CPython's decoder does at its default recursion limit, and rejects every other
  string it is asked about with \<^verbatim>\<open>JSONDecodeError\<close>.
\<close>

definition sample_json_loads :: json_decoder where
  "sample_json_loads s =
     (if s = ''{}'' then Decoded (PDict [])
      else if s = ''[]'' then Decoded (PList [])
      else if 1000 \<le> length (takeWhile (\<lambda>c. c = CHR ''['') s) then Raises RecursionError
      else JSONDecodeError)"


definition sample_provider :: OpenAIProvider where
  "sample_provider = init Map.empty None None ''z-ai/glm4.7''"

definition sample_messages :: "pyval list" where
  "sample_messages = [PDict [(''role'', PStr ''user''), (''content'', PStr ''hi'')]]"

text \<open>
  A reply with a reasoning text, one tool call whose payload is not valid JSON, one
  whose payload is, no finish reason and a usage block.
\<close>

definition sample_message :: vendor_message where
  "sample_message =
     \<lparr> msg_content = Some ''It is sunny.'',
       msg_reasoning_content = Attr (Some ''The user asks about the weather.''),
       msg_tool_calls =
         Attr (Some [\<lparr> tc_id = ''call_1'',
                        tc_function = \<lparr> fn_name = ''get_weather'',
                                        fn_arguments = PStr ''{oops'' \<rparr> \<rparr>,
                      \<lparr> tc_id = ''call_2'',
                        tc_function = \<lparr> fn_name = ''noop'',
                                        fn_arguments = PStr ''{}'' \<rparr> \<rparr>]) \<rparr>"

definition sample_response :: vendor_response where
  "sample_response =
     \<lparr> resp_choices = [\<lparr> ch_message = sample_message, ch_finish_reason = None \<rparr>],
       resp_usage =
         Attr (Some \<lparr> prompt_tokens = 10, completion_tokens = 5, total_tokens = 15 \<rparr>) \<rparr>"


text \<open>
  Two replies are identical except for their reasoning text when they agree once that
  attribute is removed from the message of every choice.
\<close>

definition erase_reasoning_message :: "vendor_message \<Rightarrow> vendor_message" where
  "erase_reasoning_message message = message\<lparr>msg_reasoning_content := Absent\<rparr>"

definition erase_reasoning :: "vendor_response \<Rightarrow> vendor_response" where
  "erase_reasoning response =
     response\<lparr>resp_choices :=
       map (\<lambda>choice. choice\<lparr>ch_message := erase_reasoning_message (ch_message choice)\<rparr>)
           (resp_choices response)\<rparr>"

section \<open>Strings: what the tests mean\<close>

lemma startswith_iff: "startswith s p \<longleftrightarrow> (\<exists>t. s = p @ t)"
  by (induction s p rule: startswith.induct) auto

lemma contains_str_iff: "contains_str sub s \<longleftrightarrow> (\<exists>pre post. s = pre @ sub @ post)"
proof (induction s)
  case Nil
  then show ?case by auto
next
  case (Cons c cs)
  show ?case
  proof
    assume "contains_str sub (c # cs)"
    then consider "startswith (c # cs) sub" | "contains_str sub cs" by auto
    then show "\<exists>pre post. c # cs = pre @ sub @ post"
    proof cases
      case 1
      then obtain t where "c # cs = sub @ t" by (auto simp: startswith_iff)
      then have "c # cs = [] @ sub @ t" by simp
      then show ?thesis by blast
    next
      case 2
      with Cons.IH obtain pre post where "cs = pre @ sub @ post" by blast
      then have "c # cs = (c # pre) @ sub @ post" by simp
      then show ?thesis by blast
    qed
  next
    assume "\<exists>pre post. c # cs = pre @ sub @ post"
    then obtain pre post where eq: "c # cs = pre @ sub @ post" by blast
    show "contains_str sub (c # cs)"
    proof (cases pre)
      case Nil
      with eq have "startswith (c # cs) sub" by (auto simp: startswith_iff)
      then show ?thesis by simp
    next
      case (Cons d pre')
      with eq have "cs = pre' @ sub @ post" by simp
      with Cons.IH have "contains_str sub cs" by blast
      then show ?thesis by simp
    qed
  qed
qed

lemma error_prefix: "contains_str ''Error calling LLM:'' (''Error calling LLM: '' @ x)"
  by simp

lemma lower_char_g: "lower_char c = CHR ''g'' \<longleftrightarrow> c = CHR ''g'' \<or> c = CHR ''G''"
  by (auto simp: lower_char_def split: if_splits)

lemma lower_char_l: "lower_char c = CHR ''l'' \<longleftrightarrow> c = CHR ''l'' \<or> c = CHR ''L''"
  by (auto simp: lower_char_def split: if_splits)

lemma lower_char_m: "lower_char c = CHR ''m'' \<longleftrightarrow> c = CHR ''m'' \<or> c = CHR ''M''"
  by (auto simp: lower_char_def split: if_splits)

text \<open>The test of line 77 is the spec's condition.\<close>

lemma glm_test_iff: "contains_str ''glm'' (lower ident) \<longleftrightarrow> contains_glm_ignoring_case ident"
proof
  assume "contains_str ''glm'' (lower ident)"
  then obtain pre post where "map lower_char ident = pre @ ''glm'' @ post"
    by (auto simp: contains_str_iff lower_def)
  then obtain pre' g l m post' where
    "ident = pre' @ [g, l, m] @ post'" "lower_char g = CHR ''g''" "lower_char l = CHR ''l''"
    "lower_char m = CHR ''m''"
    by (auto simp: map_eq_append_conv map_eq_Cons_conv)
  then show "contains_glm_ignoring_case ident"
    unfolding contains_glm_ignoring_case_def lower_char_g lower_char_l lower_char_m by blast
next
  assume "contains_glm_ignoring_case ident"
  then obtain pre post g l m where
    "ident = pre @ [g, l, m] @ post" "lower_char g = CHR ''g''" "lower_char l = CHR ''l''"
    "lower_char m = CHR ''m''"
    unfolding contains_glm_ignoring_case_def lower_char_g lower_char_l lower_char_m by blast
  then have "lower ident = map lower_char pre @ ''glm'' @ map lower_char post"
    by (simp add: lower_def)
  then show "contains_str ''glm'' (lower ident)"
    unfolding contains_str_iff by blast
qed

section \<open>The API key\<close>

lemma resolve_key_plain:
  "\<not> startswith key ''$'' \<Longrightarrow> resolve_key env (Some key) = Some key"
  by (simp add: resolve_key_def)

text \<open>
  Line 37 is a later step: the client is given \<^verbatim>\<open>key or "dummy-key"\<close>, so a resolved
  key that is empty (or no key at all) is replaced by the placeholder.
\<close>

lemma init_client_api_key:
  "client_api_key (init env api_key api_base m) =
     (case resolve_key env api_key of
        None \<Rightarrow> ''dummy-key''
      | Some [] \<Rightarrow> ''dummy-key''
      | Some (c # cs) \<Rightarrow> c # cs)"
  by (simp add: init_def split: option.split list.split)

text \<open>
  Claim C2. The API key is resolved as a function of the configured string and the
  environment alone: a configured key that starts with the sentinel \<^verbatim>\<open>$\<close> is replaced
  by the value of the environment variable named by the rest of the string, and stays
  the literal configured string when that variable is unset. So \<^verbatim>\<open>"$MY_KEY"\<close> resolves
  to \<^verbatim>\<open>"abc123"\<close> under \<^verbatim>\<open>MY_KEY=abc123\<close> and to \<^verbatim>\<open>"$MY_KEY"\<close> itself when
  \<^verbatim>\<open>MY_KEY\<close> is unset, and that is the key the client is built with.
\<close>

theorem api_key_resolution:
  "resolve_key env (Some (CHR ''$'' # var)) =
     Some (case env var of Some v \<Rightarrow> v | None \<Rightarrow> CHR ''$'' # var)
   \<and> resolve_key [''MY_KEY'' \<mapsto> ''abc123''] (Some ''$MY_KEY'') = Some ''abc123''
   \<and> resolve_key Map.empty (Some ''$MY_KEY'') = Some ''$MY_KEY''
   \<and> client_api_key (init [''MY_KEY'' \<mapsto> ''abc123''] (Some ''$MY_KEY'') api_base m) = ''abc123''
   \<and> client_api_key (init Map.empty (Some ''$MY_KEY'') api_base m) = ''$MY_KEY''"
  by (simp add: resolve_key_def os_getenv_def init_def)

section \<open>The request parameters\<close>

text \<open>One entry of the request: the caller's extra parameters are looked up first.\<close>

lemma chat_kwargs_lookup:
  "chat_kwargs self messages tools model max_tokens temperature enable_thinking extra_kwargs k =
     (case extra_kwargs k of
        Some v \<Rightarrow> Some v
      | None \<Rightarrow>
          (let model' = str_or model (default_model self);
               kwargs0 = [''model'' \<mapsto> PStr model',
                          ''messages'' \<mapsto> PList messages,
                          ''temperature'' \<mapsto> PFloat temperature,
                          ''max_tokens'' \<mapsto> PInt max_tokens,
                          ''stream'' \<mapsto> PBool False];
               kwargs1 = (if enable_thinking \<and> contains_str ''glm'' (lower model')
                          then kwargs0(''extra_body'' \<mapsto> thinking_extra_body)
                          else kwargs0);
               kwargs2 = (case tools of
                            None \<Rightarrow> kwargs1
                          | Some [] \<Rightarrow> kwargs1
                          | Some (t # ts) \<Rightarrow>
                              kwargs1(''tools'' \<mapsto> PList (t # ts),
                                      ''tool_choice'' \<mapsto> PStr ''auto''))
           in kwargs2 k))"
  by (simp add: chat_kwargs_def Let_def map_add_def split: option.split)

text \<open>
  Claim C4, as amended. Provided the caller's extra parameters carry no entry
  \<^verbatim>\<open>extra_body\<close>, the request holds the extended-reasoning flag (the entry
  \<^verbatim>\<open>extra_body\<close> with \<^verbatim>\<open>enable_thinking\<close> set) if and only if \<^verbatim>\<open>enable_thinking\<close> is
  true and the resolved model identifier contains \<^verbatim>\<open>glm\<close>, case ignored; otherwise it
  holds no \<^verbatim>\<open>extra_body\<close> at all. The extra parameters are merged last, so an
  \<^verbatim>\<open>extra_body\<close> among them is sent as the caller gave it, whatever the model.
\<close>

theorem thinking_flag_iff:
  "(extra_kwargs ''extra_body'' = None \<longrightarrow>
      chat_kwargs self messages tools model max_tokens temperature enable_thinking extra_kwargs
        ''extra_body'' =
      (if enable_thinking \<and> contains_glm_ignoring_case (str_or model (default_model self))
       then Some thinking_extra_body else None))
   \<and> (\<forall>v. extra_kwargs ''extra_body'' = Some v \<longrightarrow>
      chat_kwargs self messages tools model max_tokens temperature enable_thinking extra_kwargs
        ''extra_body'' = Some v)"
  by (auto simp: chat_kwargs_lookup Let_def glm_test_iff split: option.split list.split)

theorem thinking_flag_iff_witness:
  "chat_kwargs sample_provider sample_messages None None 16384 1 True Map.empty ''extra_body''
     = Some thinking_extra_body
   \<and> chat_kwargs sample_provider sample_messages None (Some ''gpt-4'') 16384 1 True Map.empty
       ''extra_body'' = None
   \<and> chat_kwargs sample_provider sample_messages None None 16384 1 False Map.empty ''extra_body''
     = None
   \<and> chat_kwargs sample_provider sample_messages None None 16384 1 True
       [''extra_body'' \<mapsto> PDict []] ''extra_body'' = Some (PDict [])"
proof -
  let ?extra = "[''extra_body'' \<mapsto> PDict []]"
  have h: "(Map.empty :: kwargs) ''extra_body'' = None" by simp
  have h': "?extra ''extra_body'' = Some (PDict [])" by simp
  have glm: "contains_glm_ignoring_case (str_or None (default_model sample_provider))"
    unfolding glm_test_iff [symmetric]
    by (simp add: sample_provider_def init_def lower_def lower_char_def)
  have gpt: "\<not> contains_glm_ignoring_case (str_or (Some ''gpt-4'') (default_model sample_provider))"
    unfolding glm_test_iff [symmetric]
    by (simp add: lower_def lower_char_def)
  from thinking_flag_iff [of Map.empty sample_provider sample_messages None None 16384 1 True]
    h glm
  have a: "chat_kwargs sample_provider sample_messages None None 16384 1 True Map.empty
      ''extra_body'' = Some thinking_extra_body" by simp
  from thinking_flag_iff
    [of Map.empty sample_provider sample_messages None "Some ''gpt-4''" 16384 1 True] h gpt
  have b: "chat_kwargs sample_provider sample_messages None (Some ''gpt-4'') 16384 1 True
      Map.empty ''extra_body'' = None" by simp
  from thinking_flag_iff [of Map.empty sample_provider sample_messages None None 16384 1 False] h
  have c: "chat_kwargs sample_provider sample_messages None None 16384 1 False Map.empty
      ''extra_body'' = None" by simp
  from thinking_flag_iff [of ?extra sample_provider sample_messages None None 16384 1 True] h'
  have d: "chat_kwargs sample_provider sample_messages None None 16384 1 True ?extra
      ''extra_body'' = Some (PDict [])" by blast
  from a b c d show ?thesis by simp
qed

text \<open>
  The claim as it was stated fails: with \<^verbatim>\<open>model="gpt-4"\<close>, \<^verbatim>\<open>enable_thinking=True\<close>
  and the extra keyword argument \<^verbatim>\<open>extra_body\<close> set to the flag, the request holds
  the flag although the model identifier does not contain \<^verbatim>\<open>glm\<close>.
\<close>

theorem thinking_flag_counterexample:
  "valid_extra_kwargs [''extra_body'' \<mapsto> thinking_extra_body]
   \<and> chat_kwargs sample_provider sample_messages None (Some ''gpt-4'') 16384 1 True
        [''extra_body'' \<mapsto> thinking_extra_body] ''extra_body'' = Some thinking_extra_body
   \<and> \<not> contains_glm_ignoring_case (str_or (Some ''gpt-4'') (default_model sample_provider))"
  unfolding glm_test_iff [symmetric]
  by (simp add: chat_kwargs_lookup valid_extra_kwargs_def chat_parameters_def lower_def
      lower_char_def)




text \<open>
  Claim C8, as amended. For every invocation of \<^verbatim>\<open>chat\<close> whose extra parameters carry
  no entry \<^verbatim>\<open>stream\<close>, the request holds \<^verbatim>\<open>stream\<close> set to false. The extra
  parameters are merged last: an entry \<^verbatim>\<open>stream\<close> among them replaces the adapter's
  and is sent as the caller gave it.
\<close>

theorem stream_false_unless_overridden:
  "(extra_kwargs ''stream'' = None \<longrightarrow>
      chat_kwargs self messages tools model max_tokens temperature enable_thinking extra_kwargs
        ''stream'' = Some (PBool False))
   \<and> (\<forall>v. extra_kwargs ''stream'' = Some v \<longrightarrow>
      chat_kwargs self messages tools model max_tokens temperature enable_thinking extra_kwargs
        ''stream'' = Some v)"
  by (auto simp: chat_kwargs_lookup Let_def split: option.split list.split)

theorem stream_false_unless_overridden_witness:
  "chat_kwargs sample_provider sample_messages None None 16384 1 True Map.empty ''stream''
     = Some (PBool False)
   \<and> chat_kwargs sample_provider sample_messages None None 16384 1 True
        [''top_p'' \<mapsto> PInt 1, ''stream'' \<mapsto> PStr ''yes''] ''stream''
     = Some (PStr ''yes'')"
proof -
  let ?extra = "[''top_p'' \<mapsto> PInt 1, ''stream'' \<mapsto> PStr ''yes'']"
  have h1: "(Map.empty :: kwargs) ''stream'' = None" by simp
  have h2: "?extra ''stream'' = Some (PStr ''yes'')" by simp
  from stream_false_unless_overridden
    [of Map.empty sample_provider sample_messages None None 16384 1 True] h1
  have a: "chat_kwargs sample_provider sample_messages None None 16384 1 True Map.empty ''stream''
     = Some (PBool False)" by blast
  from stream_false_unless_overridden
    [of ?extra sample_provider sample_messages None None 16384 1 True] h2
  have b: "chat_kwargs sample_provider sample_messages None None 16384 1 True ?extra ''stream''
     = Some (PStr ''yes'')" by blast
  from a b show ?thesis by simp
qed

text \<open>
  The claim as it was stated fails: called with the extra keyword argument
  \<^verbatim>\<open>stream=True\<close>, the adapter sends \<^verbatim>\<open>stream\<close> set to true.
\<close>

theorem stream_counterexample:
  "valid_extra_kwargs [''stream'' \<mapsto> PBool True]
   \<and> chat_kwargs sample_provider sample_messages None None 16384 1 True
        [''stream'' \<mapsto> PBool True] ''stream'' = Some (PBool True)
   \<and> chat_kwargs sample_provider sample_messages None None 16384 1 True
        [''stream'' \<mapsto> PBool True] ''stream'' \<noteq> Some (PBool False)"
  by (simp add: chat_kwargs_lookup valid_extra_kwargs_def chat_parameters_def)

section \<open>Parsing\<close>

lemma parse_response_Cons:
  "resp_choices response = choice # rest \<Longrightarrow>
   parse_response json_loads response =
     (case extract_tool_calls json_loads (ch_message choice) of
        Inl e \<Rightarrow> Inl e
      | Inr calls \<Rightarrow>
          Inr \<lparr> content = str_or (msg_content (ch_message choice)) [],
                tool_calls = calls,
                finish_reason = str_or (ch_finish_reason choice) ''stop'',
                usage = extract_usage response \<rparr>)"
  by (simp add: parse_response_def first_choice_def Let_def)

lemma parse_response_Nil:
  "resp_choices response = [] \<Longrightarrow> parse_response json_loads response = Inl IndexError"
  by (simp add: parse_response_def first_choice_def)

text \<open>One tool call: it is converted unless its payload makes the decoder raise.\<close>

lemma to_tool_call_request_Inr:
  "\<not> payload_raises json_loads tc \<Longrightarrow> \<exists>r. to_tool_call_request json_loads tc = Inr r"
  by (cases "fn_arguments (tc_function tc)")
    (auto simp: payload_raises_def to_tool_call_request_def split: json_result.splits)

lemma to_tool_call_request_Inl:
  "payload_raises json_loads tc \<Longrightarrow> \<exists>e. to_tool_call_request json_loads tc = Inl e"
  by (cases "fn_arguments (tc_function tc)")
    (auto simp: payload_raises_def to_tool_call_request_def split: json_result.splits)



lemma convert_tool_calls_returns_iff:
  "(\<exists>rs. convert_tool_calls json_loads tcs = Inr rs) \<longleftrightarrow>
   list_all (\<lambda>tc. \<not> payload_raises json_loads tc) tcs"
proof (induction tcs)
  case Nil
  then show ?case by simp
next
  case (Cons tc tcs)
  show ?case
  proof (cases "payload_raises json_loads tc")
    case True
    then obtain e where "to_tool_call_request json_loads tc = Inl e"
      using to_tool_call_request_Inl by blast
    with True show ?thesis by simp
  next
    case False
    then obtain r where "to_tool_call_request json_loads tc = Inr r"
      using to_tool_call_request_Inr by blast
    with False Cons.IH show ?thesis by (auto split: sum.splits)
  qed
qed

lemma extract_tool_calls_returns_iff:
  "(\<exists>rs. extract_tool_calls json_loads message = Inr rs) \<longleftrightarrow>
   payloads_decode json_loads message"
proof (cases "msg_tool_calls message")
  case Absent
  then show ?thesis by (simp add: extract_tool_calls_def payloads_decode_def)
next
  case (Attr v)
  show ?thesis
  proof (cases v)
    case None
    with Attr show ?thesis by (simp add: extract_tool_calls_def payloads_decode_def)
  next
    case (Some tcs)
    with Attr show ?thesis
      using convert_tool_calls_returns_iff [of json_loads tcs]
      by (cases "tcs = []") (simp_all add: extract_tool_calls_def payloads_decode_def)
  qed
qed

text \<open>
  The parser returns exactly when the reply has a first choice and the payloads of its
  message decode.
\<close>

lemma parse_response_returns_iff:
  "resp_choices response = choice # rest \<Longrightarrow>
   (\<exists>r. parse_response json_loads response = Inr r) \<longleftrightarrow>
   payloads_decode json_loads (ch_message choice)"
  using extract_tool_calls_returns_iff [of json_loads "ch_message choice"]
  by (auto simp: parse_response_Cons split: sum.splits)

lemma sample_payloads_decode: "payloads_decode sample_json_loads sample_message"
  by (simp add: payloads_decode_def payload_raises_def sample_message_def sample_json_loads_def)





text \<open>
  Claim C6. For a reply that has a first choice: every response the parser returns has
  the finish reason \<^verbatim>\<open>"stop"\<close> when that choice gives none, and an empty usage when the
  reply carries no usage block (the attribute is missing or \<^verbatim>\<open>None\<close>); and the parser
  returns a response whenever the payloads of the message decode, so a missing finish
  reason or usage block is never an error.
\<close>

theorem missing_fields_defaulted:
  assumes "resp_choices response = choice # rest"
  shows "(\<forall>r. parse_response json_loads response = Inr r \<longrightarrow>
            (ch_finish_reason choice = None \<longrightarrow> finish_reason r = ''stop'')
            \<and> (resp_usage response = Absent \<or> resp_usage response = Attr None \<longrightarrow>
                 usage r = []))
       \<and> (payloads_decode json_loads (ch_message choice) \<longrightarrow>
            (\<exists>r. parse_response json_loads response = Inr r))"
proof -
  have "(ch_finish_reason choice = None \<longrightarrow> finish_reason r = ''stop'')
      \<and> (resp_usage response = Absent \<or> resp_usage response = Attr None \<longrightarrow> usage r = [])"
    if "parse_response json_loads response = Inr r" for r
    using that assms by (auto simp: parse_response_Cons extract_usage_def split: sum.splits)
  then show ?thesis
    using parse_response_returns_iff [OF assms, of json_loads] by blast
qed

theorem missing_fields_defaulted_witness:
  "\<exists>r. parse_response sample_json_loads (sample_response\<lparr>resp_usage := Attr None\<rparr>) = Inr r
      \<and> finish_reason r = ''stop'' \<and> usage r = []"
proof -
  let ?choice = "\<lparr> ch_message = sample_message, ch_finish_reason = None \<rparr>"
  let ?response = "sample_response\<lparr>resp_usage := Attr None\<rparr>"
  have h1: "resp_choices ?response = ?choice # []"
    by (simp add: sample_response_def)
  have h2: "ch_finish_reason ?choice = None" by simp
  have h3: "resp_usage ?response = Absent \<or> resp_usage ?response = Attr None" by simp
  have h4: "payloads_decode sample_json_loads (ch_message ?choice)"
    using sample_payloads_decode by simp
  from missing_fields_defaulted [where json_loads = sample_json_loads, OF h1] h2 h3 h4
  show ?thesis by blast
qed

text \<open>
  Claim C7. For a reply that carries a usage block, the usage of every normalized
  response is exactly the block's three counters, \<^verbatim>\<open>prompt_tokens\<close>,
  \<^verbatim>\<open>completion_tokens\<close> and \<^verbatim>\<open>total_tokens\<close>; and there is a normalized response
  whenever the reply has a first choice and the payloads of its message decode.
\<close>

theorem usage_round_trip:
  assumes "resp_usage response = Attr (Some u)"
  shows "(\<forall>r. parse_response json_loads response = Inr r \<longrightarrow>
            usage r = [(''prompt_tokens'', prompt_tokens u),
                       (''completion_tokens'', completion_tokens u),
                       (''total_tokens'', total_tokens u)])
       \<and> (resp_choices response = choice # rest
            \<and> payloads_decode json_loads (ch_message choice) \<longrightarrow>
            (\<exists>r. parse_response json_loads response = Inr r))"
proof -
  have "usage r = [(''prompt_tokens'', prompt_tokens u),
                   (''completion_tokens'', completion_tokens u),
                   (''total_tokens'', total_tokens u)]"
    if r: "parse_response json_loads response = Inr r" for r
  proof (cases "resp_choices response")
    case Nil
    with r show ?thesis by (simp add: parse_response_Nil)
  next
    case (Cons c cs)
    with r assms show ?thesis
      by (auto simp: parse_response_Cons extract_usage_def split: sum.splits)
  qed
  then show ?thesis
    using parse_response_returns_iff [of response choice rest json_loads] by blast
qed

theorem usage_round_trip_witness:
  "\<exists>r. parse_response sample_json_loads sample_response = Inr r
      \<and> usage r = [(''prompt_tokens'', 10), (''completion_tokens'', 5), (''total_tokens'', 15)]"
proof -
  let ?u = "\<lparr> prompt_tokens = 10, completion_tokens = 5, total_tokens = 15 \<rparr>"
  let ?choice = "\<lparr> ch_message = sample_message, ch_finish_reason = None \<rparr>"
  have h1: "resp_usage sample_response = Attr (Some ?u)"
    by (simp add: sample_response_def)
  have h2: "resp_choices sample_response = ?choice # []"
    by (simp add: sample_response_def)
  have h3: "payloads_decode sample_json_loads (ch_message ?choice)"
    using sample_payloads_decode by simp
  from usage_round_trip
    [where json_loads = sample_json_loads and choice = ?choice and rest = "[]", OF h1] h2 h3
  show ?thesis by auto
qed

lemma extract_tool_calls_erase_reasoning:
  "extract_tool_calls json_loads (erase_reasoning_message message) =
   extract_tool_calls json_loads message"
  by (simp add: extract_tool_calls_def erase_reasoning_message_def)

lemma parse_response_erase_reasoning:
  "parse_response json_loads (erase_reasoning response) = parse_response json_loads response"
proof (cases "resp_choices response")
  case Nil
  then show ?thesis by (simp add: parse_response_Nil erase_reasoning_def)
next
  case (Cons choice rest)
  then have "resp_choices (erase_reasoning response) =
      choice\<lparr>ch_message := erase_reasoning_message (ch_message choice)\<rparr> #
      map (\<lambda>c. c\<lparr>ch_message := erase_reasoning_message (ch_message c)\<rparr>) rest"
    by (simp add: erase_reasoning_def)
  then have "parse_response json_loads (erase_reasoning response) =
      (case extract_tool_calls json_loads (ch_message choice) of
         Inl e \<Rightarrow> Inl e
       | Inr calls \<Rightarrow>
           Inr \<lparr> content = str_or (msg_content (ch_message choice)) [],
                 tool_calls = calls,
                 finish_reason = str_or (ch_finish_reason choice) ''stop'',
                 usage = extract_usage response \<rparr>)"
    by (simp add: parse_response_Cons extract_tool_calls_erase_reasoning extract_usage_def
        erase_reasoning_def split: sum.split)
      (simp add: erase_reasoning_message_def)
  with Cons show ?thesis by (simp add: parse_response_Cons)
qed

text \<open>
  Claim C9. The reasoning text of a reply never reaches the normalized response: two
  replies that are identical except for their reasoning text are parsed to the same
  result, and the result for a reply is the one for that reply with its reasoning text
  removed, so no field of it is taken from that text. (A vendor that repeats its
  reasoning in the answer's \<^verbatim>\<open>content\<close> has it copied from there as content.)
\<close>

theorem reasoning_never_exposed:
  "(erase_reasoning response1 = erase_reasoning response2 \<longrightarrow>
      parse_response json_loads response1 = parse_response json_loads response2)
   \<and> parse_response json_loads response = parse_response json_loads (erase_reasoning response)"
  by (metis parse_response_erase_reasoning)

theorem reasoning_never_exposed_witness:
  "parse_response sample_json_loads sample_response =
     parse_response sample_json_loads
       (sample_response\<lparr>resp_choices :=
          [\<lparr> ch_message = sample_message\<lparr>msg_reasoning_content := Attr (Some ''Rain, surely.'')\<rparr>,
             ch_finish_reason = None \<rparr>]\<rparr>)"
proof -
  let ?other = "sample_response\<lparr>resp_choices :=
          [\<lparr> ch_message = sample_message\<lparr>msg_reasoning_content := Attr (Some ''Rain, surely.'')\<rparr>,
             ch_finish_reason = None \<rparr>]\<rparr>"
  have h: "erase_reasoning sample_response = erase_reasoning ?other"
    by (simp add: erase_reasoning_def erase_reasoning_message_def sample_response_def)
  from reasoning_never_exposed [of sample_response ?other sample_json_loads] h
  show ?thesis by blast
qed

section \<open>The call as a whole\<close>

text \<open>
  Claim C1. Whatever the messages, the optional arguments, the extra parameters and the
  behaviour of the network call, \<^verbatim>\<open>chat\<close> returns a response and raises nothing; and
  when the network call fails with an exception \<open>e\<close>, the response has the finish reason
  \<^verbatim>\<open>"error"\<close> and the content \<^verbatim>\<open>"Error calling LLM: "\<close> followed by \<^verbatim>\<open>str(e)\<close>, which
  contains \<^verbatim>\<open>"Error calling LLM:"\<close>.
\<close>

theorem chat_always_returns:
  "\<exists>r. chat create json_loads self messages tools model max_tokens temperature enable_thinking
          extra_kwargs = Inr r
       \<and> (\<forall>e. create (chat_kwargs self messages tools model max_tokens temperature
                         enable_thinking extra_kwargs) = Inl e
             \<longrightarrow> finish_reason r = ''error''
                 \<and> content r = ''Error calling LLM: '' @ exc_str e
                 \<and> contains_str ''Error calling LLM:'' (content r))"
  by (auto simp: chat_def try_except_def error_response_def Let_def split: sum.splits)

theorem chat_always_returns_witness:
  "\<exists>r. chat (\<lambda>kw. Inl (PyException ''APIConnectionError'' ''Connection error.''))
          sample_json_loads sample_provider sample_messages None None 16384 1 True Map.empty
        = Inr r
      \<and> finish_reason r = ''error''
      \<and> content r = ''Error calling LLM: Connection error.''"
proof -
  let ?create = "\<lambda>kw::kwargs.
      (Inl (PyException ''APIConnectionError'' ''Connection error.'')
         :: py_exception + vendor_response)"
  have h: "?create (chat_kwargs sample_provider sample_messages None None 16384 1 True Map.empty)
      = Inl (PyException ''APIConnectionError'' ''Connection error.'')"
    by simp
  from chat_always_returns [of ?create sample_json_loads sample_provider sample_messages None None
      16384 1 True Map.empty] h
  show ?thesis by auto
qed

text \<open>
  Claim C10. The parsing of the reply stands inside the same \<^verbatim>\<open>try\<close>: when the
  network call returns a reply that the parser fails on with an exception \<open>e\<close>,
  \<^verbatim>\<open>chat\<close> returns the response with finish reason \<^verbatim>\<open>"error"\<close> and a content that
  starts with \<^verbatim>\<open>"Error calling LLM:"\<close> and goes on with \<^verbatim>\<open>str(e)\<close>. A reply whose
  list of choices is empty is such a reply: the parser fails on it with
  \<^verbatim>\<open>IndexError\<close>.
\<close>

theorem parse_failure_is_error_response:
  assumes "create (chat_kwargs self messages tools model max_tokens temperature enable_thinking
                     extra_kwargs) = Inr response"
  shows "(\<forall>e. parse_response json_loads response = Inl e \<longrightarrow>
            (\<exists>r. chat create json_loads self messages tools model max_tokens temperature
                    enable_thinking extra_kwargs = Inr r
                \<and> finish_reason r = ''error''
                \<and> content r = ''Error calling LLM: '' @ exc_str e
                \<and> startswith (content r) ''Error calling LLM:''))
       \<and> (resp_choices response = [] \<longrightarrow> parse_response json_loads response = Inl IndexError)"
  using assms
  by (auto simp: chat_def try_except_def Let_def error_response_def parse_response_Nil)

theorem parse_failure_is_error_response_witness:
  "\<exists>r. chat (\<lambda>kw. Inr (sample_response\<lparr>resp_choices := []\<rparr>)) sample_json_loads sample_provider
          sample_messages None None 16384 1 True Map.empty = Inr r
      \<and> finish_reason r = ''error''
      \<and> content r = ''Error calling LLM: list index out of range''"
proof -
  let ?reply = "sample_response\<lparr>resp_choices := []\<rparr>"
  let ?create = "\<lambda>kw::kwargs. (Inr ?reply :: py_exception + vendor_response)"
  have h1: "?create (chat_kwargs sample_provider sample_messages None None 16384 1 True Map.empty)
      = Inr ?reply"
    by simp
  have h2: "resp_choices ?reply = []" by simp
  from parse_failure_is_error_response
    [where create = ?create and json_loads = sample_json_loads and self = sample_provider
       and messages = sample_messages and tools = None and model = None
       and max_tokens = 16384 and temperature = 1 and enable_thinking = True
       and extra_kwargs = Map.empty, OF h1] h2
  show ?thesis by (auto simp: IndexError_def)
qed

end
